theory Spec2Isabelle
  imports Complex_Main
begin

section \<open>The capnograph pipeline of capnograph-ui.py\<close>

text \<open>
  The theory embeds the computing part of class \<open>MainUI\<close> of \<^verbatim>\<open>capnograph-ui.py\<close>:
  the breath segmentation \<open>volBreath\<close>, the CO2 integration \<open>veVco2\<close>, the peak
  tracker \<open>co2Max\<close>, the reset \<open>resetAvg\<close> and the dispatch \<open>dataUpdate\<close>.

  Modelling decisions:
  \<^item> Python floats are read as real numbers (exact arithmetic, no rounding), and a
    \<open>datetime\<close> as its time in seconds, so the difference of two of them is the
    value of \<open>total_seconds()\<close>.
  \<^item> Each call of \<open>datetime.now()\<close> is a parameter \<open>now\<close> of the function that
    makes it.
  \<^item> A raised exception is the left injection of a sum, together with the object
    state as the statements executed before the raise left it.
  \<^item> The text of a label is the number handed to \<open>format\<close>; the plot buffers, the
    curves and the rows of raw readings in the save file are left out; the rows
    that \<open>volBreath\<close> appends to the save file are the field \<open>saveLog\<close>, and
    opening that file is taken to succeed.
\<close>

subsection \<open>Exceptions and \<open>collections.deque\<close>\<close>

datatype error = ZeroDivisionError | IndexError

record 'a deque =
  items :: "'a list"
  maxlen :: nat

text \<open>\<open>collections.deque(xs, m)\<close>: only the last \<open>m\<close> elements of \<open>xs\<close> are kept.\<close>

definition deque_new :: "'a list \<Rightarrow> nat \<Rightarrow> 'a deque" where
  "deque_new xs m = \<lparr>items = drop (length xs - m) xs, maxlen = m\<rparr>"

text \<open>
  \<open>d.append(x)\<close>: the element is added on the right and, once the deque is longer
  than \<open>maxlen\<close>, elements leave on the left. A deque never holds more than
  \<open>maxlen\<close> elements, so at most one element leaves.
\<close>

definition deque_append :: "'a deque \<Rightarrow> 'a \<Rightarrow> 'a deque" where
  "deque_append d x =
     d\<lparr>items := drop (length (items d) + 1 - maxlen d) (items d @ [x])\<rparr>"

text \<open>\<open>d[-k]\<close> for \<open>k = 1, 2, ...\<close>; out of range it raises \<open>IndexError\<close>.\<close>

definition deque_index_neg :: "'a deque \<Rightarrow> nat \<Rightarrow> error + 'a" where
  "deque_index_neg d k =
     (if 1 \<le> k \<and> k \<le> length (items d)
      then Inr (items d ! (length (items d) - k))
      else Inl IndexError)"

text \<open>The last \<open>m\<close> elements of a list: what a deque of capacity \<open>m\<close> retains.\<close>

definition lastn :: "nat \<Rightarrow> 'a list \<Rightarrow> 'a list" where
  "lastn m xs = drop (length xs - m) xs"

text \<open>Float division \<open>a / b\<close>: a zero divisor raises \<open>ZeroDivisionError\<close>.\<close>

definition truediv :: "real \<Rightarrow> real \<Rightarrow> error + real" where
  "truediv a b = (if b = 0 then Inl ZeroDivisionError else Inr (a / b))"

subsection \<open>The state of \<open>MainUI\<close>\<close>

record MainUI =
  floTrig :: real
  coTrig :: real
  integratedCo :: real
  integratedCoPts :: int
  integratedCoTime :: "real deque"
  veVco2Val :: "real deque"
  maxCo2Val :: real
  volBreathsQ :: "real deque"
  curVol :: "real deque"
  volFlag :: bool
  tabAvg_label_vol :: real
  tabAvg_label_veVc :: real
  tabAvg_label_percPk :: real
  tabCur_label_vol :: real
  saveLog :: "(real \<times> real) list"

text \<open>
  \<open>__init__\<close>, with \<open>now\<close> the time of construction. \<open>setupTab\<close> writes
  \<open>currentVal\<close>, \<open>currentVeVco2\<close> and \<open>percPkVal\<close>, all \<open>0.0\<close>, into the labels.
\<close>

definition MainUI_init :: "real \<Rightarrow> MainUI" where
  "MainUI_init now =
     \<lparr>floTrig = 10, coTrig = 20000,
      integratedCo = 0, integratedCoPts = 0,
      integratedCoTime = deque_new [now, now] 5,
      veVco2Val = deque_new [0] 500,
      maxCo2Val = 0,
      volBreathsQ = deque_new [] 100,
      curVol = deque_new [0] 500,
      volFlag = False,
      tabAvg_label_vol = 0, tabAvg_label_veVc = 0, tabAvg_label_percPk = 0,
      tabCur_label_vol = 0,
      saveLog = []\<rparr>"

text \<open>The result of a method: the new state, or the exception and the state at the raise.\<close>

type_synonym result = "(error \<times> MainUI) + MainUI"

definition state_of :: "result \<Rightarrow> MainUI" where
  "state_of r = (case r of Inl (e, s) \<Rightarrow> s | Inr s \<Rightarrow> s)"

subsection \<open>\<open>resetAvg\<close>\<close>

text \<open>No statement of the \<open>try\<close> block raises, so its handler is never entered.\<close>

definition resetAvg :: "MainUI \<Rightarrow> MainUI" where
  "resetAvg s =
     s\<lparr>integratedCo := 0, integratedCoPts := 0,
       tabAvg_label_veVc := 0,
       maxCo2Val := 0, tabAvg_label_percPk := 0,
       volBreathsQ := deque_new [] 100,
       tabAvg_label_vol := 0,
       volFlag := False\<rparr>"

subsection \<open>\<open>veVco2\<close>\<close>

text \<open>\<open>(self.integratedCoTime[-1] - self.integratedCoTime[-2]).total_seconds()\<close>\<close>

definition elapsed :: "real deque \<Rightarrow> error + real" where
  "elapsed d =
     (case deque_index_neg d 1 of
        Inl e \<Rightarrow> Inl e
      | Inr a \<Rightarrow> (case deque_index_neg d 2 of Inl e \<Rightarrow> Inl e | Inr b \<Rightarrow> Inr (a - b)))"

text \<open>\<open>1/(self.integratedCo/(self.integratedCoPts*.05))\<close>\<close>

definition ratio :: "MainUI \<Rightarrow> error + real" where
  "ratio s =
     (case truediv (integratedCo s) (real_of_int (integratedCoPts s) * 0.05) of
        Inl e \<Rightarrow> Inl e
      | Inr q \<Rightarrow> truediv 1 q)"

definition veVco2 :: "real \<Rightarrow> real \<Rightarrow> MainUI \<Rightarrow> result" where
  "veVco2 now n s =
     (if n > coTrig s then
        let s1 = s\<lparr>integratedCoTime := deque_append (integratedCoTime s) now\<rparr> in
        (case elapsed (integratedCoTime s1) of
           Inl e \<Rightarrow> Inl (e, s1)
         | Inr dt \<Rightarrow>
             let s2 = (if dt > 0.06 \<or> dt < 0.04
                       then s1\<lparr>integratedCo := integratedCo s1 + (n / 1000000) * 0.05\<rparr>
                       else s1\<lparr>integratedCo := integratedCo s1 + (n / 1000000) * dt\<rparr>);
                 s3 = s2\<lparr>integratedCoPts := integratedCoPts s2 + 1\<rparr>
             in (case ratio s3 of
                   Inl e \<Rightarrow> Inl (e, s3)
                 | Inr r \<Rightarrow>
                     Inr (s3\<lparr>veVco2Val := deque_append (veVco2Val s3) r,
                             tabAvg_label_veVc := r\<rparr>)))
      else Inr (s\<lparr>veVco2Val := deque_append (veVco2Val s) 0\<rparr>))"

subsection \<open>\<open>co2Max\<close>\<close>

text \<open>
  The body of \<open>co2Max\<close> is \<open>pass\<close>; the statements that follow it in the source
  are inside a string literal and are never executed.
\<close>

definition co2Max :: "real \<Rightarrow> MainUI \<Rightarrow> MainUI" where
  "co2Max n s = s"

subsection \<open>\<open>volBreath\<close>\<close>

text \<open>
  The two tests of \<open>volFlag\<close> are two separate \<open>if\<close> statements: the second one
  reads the flag as the first one left it.
\<close>

definition volBreath :: "real \<Rightarrow> real \<Rightarrow> MainUI \<Rightarrow> result" where
  "volBreath now n s =
     (let s1 = (if volFlag s = False
                then (if n \<ge> floTrig s
                      then s\<lparr>curVol := deque_append (curVol s) (n * (5 / 6000)),
                             volFlag := True\<rparr>
                      else s)
                else s)
      in if volFlag s1 = True
         then (if n \<ge> floTrig s1
               then Inr (s1\<lparr>curVol := deque_append (curVol s1) (n * (5 / 6000))\<rparr>)
               else
                 let s2 = s1\<lparr>volBreathsQ :=
                               deque_append (volBreathsQ s1) (sum_list (items (curVol s1)))\<rparr>
                 in (case deque_index_neg (volBreathsQ s2) 1 of
                       Inl e \<Rightarrow> Inl (e, s2)
                     | Inr v \<Rightarrow>
                         let s3 = s2\<lparr>tabCur_label_vol := v,
                                     saveLog := saveLog s2 @ [(now, v)],
                                     curVol := deque_new [] 500\<rparr>
                         in (case truediv (sum_list (items (volBreathsQ s3)))
                                          (real (length (items (volBreathsQ s3)))) of
                               Inl e \<Rightarrow> Inl (e, s3)
                             | Inr avg \<Rightarrow>
                                 Inr (s3\<lparr>tabAvg_label_vol := avg, volFlag := False\<rparr>))))
         else Inr s1)"

subsection \<open>\<open>dataUpdate\<close> and runs of samples\<close>

text \<open>
  \<open>dataUpdate(index, n)\<close> hands a flow reading (\<open>index = 0\<close>) to \<open>volBreath\<close> and a
  CO2 reading (\<open>index = 1\<close>) to \<open>veVco2\<close> and then to \<open>co2Max\<close>.
\<close>

definition dataUpdate :: "real \<Rightarrow> int \<Rightarrow> real \<Rightarrow> MainUI \<Rightarrow> result" where
  "dataUpdate now index n s =
     (if index = 0 then volBreath now n s
      else if index = 1 then
        (case veVco2 now n s of Inl e \<Rightarrow> Inl e | Inr s1 \<Rightarrow> Inr (co2Max n s1))
      else Inr s)"

text \<open>
  A run delivers readings \<open>(now, n)\<close> of one channel in order; an exception ends it.
\<close>

fun run :: "int \<Rightarrow> (real \<times> real) list \<Rightarrow> MainUI \<Rightarrow> result" where
  "run index [] s = Inr s"
| "run index (x # xs) s =
     (case dataUpdate (fst x) index (snd x) s of
        Inl e \<Rightarrow> Inl e
      | Inr s1 \<Rightarrow> run index xs s1)"

abbreviation run_flow :: "(real \<times> real) list \<Rightarrow> MainUI \<Rightarrow> result" where
  "run_flow \<equiv> run 0"

abbreviation run_co :: "(real \<times> real) list \<Rightarrow> MainUI \<Rightarrow> result" where
  "run_co \<equiv> run 1"

text \<open>The breath rows that a run from \<open>s\<close> to \<open>s'\<close> has added to the save file.\<close>

definition breaths_since :: "MainUI \<Rightarrow> MainUI \<Rightarrow> (real \<times> real) list" where
  "breaths_since s s' = drop (length (saveLog s)) (saveLog s')"

section \<open>Properties\<close>

subsection \<open>Helper facts\<close>

lemma elapsed_append:
  assumes "items d \<noteq> []" and "2 \<le> maxlen d"
  shows "elapsed (deque_append d now) = Inr (now - last (items d))"
proof -
  define k where "k = length (items d) + 1 - maxlen d"
  define zs where "zs = drop k (items d)"
  have k: "k < length (items d)"
    using assms by (cases "items d") (auto simp: k_def)
  have zs: "zs \<noteq> []" using k by (simp add: zs_def)
  have ys: "items (deque_append d now) = zs @ [now]"
    using k by (simp add: deque_append_def k_def zs_def)
  have lst: "last zs = last (items d)"
    using k by (simp add: zs_def)
  have a: "(zs @ [now]) ! (length zs) = now" by simp
  have "(zs @ [now]) ! (length zs - 1) = zs ! (length zs - 1)"
    using zs by (simp add: nth_append)
  also have "\<dots> = last zs" using zs by (simp add: last_conv_nth)
  finally have b: "(zs @ [now]) ! (length zs - 1) = last (items d)"
    using lst by simp
  have len: "1 \<le> length zs" using zs by (cases zs) auto
  show ?thesis
    using a b len by (simp add: elapsed_def deque_index_neg_def ys)
qed


lemma maxlen_deque_append: "maxlen (deque_append d x) = maxlen d"
  by (simp add: deque_append_def)

lemma lastn_lastn_append: "lastn m (lastn m xs @ ys) = lastn m (xs @ ys)"
proof (cases "length xs \<le> m")
  case True
  then show ?thesis by (simp add: lastn_def)
next
  case False
  then have "length xs + length ys - (length xs - m + m) + (length xs - m)
               = length xs + length ys - m" by simp
  with False show ?thesis by (simp add: lastn_def)
qed


lemma lastn_append_long: "m \<le> length ys \<Longrightarrow> lastn m (xs @ ys) = lastn m ys"
  by (auto simp: lastn_def)

lemma run_append:
  "run i (xs @ ys) s = (case run i xs s of Inl e \<Rightarrow> Inl e | Inr s1 \<Rightarrow> run i ys s1)"
  by (induction xs arbitrary: s) (auto split: sum.splits)

lemma volBreath_above:
  assumes "floTrig s \<le> n"
  shows "volBreath now n s =
           Inr (s\<lparr>curVol := (if volFlag s then deque_append (curVol s) (n * (5 / 6000))
                     else deque_append (deque_append (curVol s) (n * (5 / 6000))) (n * (5 / 6000))),
                  volFlag := True\<rparr>)"
  using assms by (simp add: volBreath_def)


lemma volBreath_below_open:
  assumes "n < floTrig s" and "volFlag s" and "0 < maxlen (volBreathsQ s)"
  shows "volBreath now n s =
           Inr (s\<lparr>volBreathsQ := deque_append (volBreathsQ s) (sum_list (items (curVol s))),
                  tabCur_label_vol := sum_list (items (curVol s)),
                  saveLog := saveLog s @ [(now, sum_list (items (curVol s)))],
                  curVol := deque_new [] 500,
                  tabAvg_label_vol :=
                    sum_list (items (deque_append (volBreathsQ s) (sum_list (items (curVol s)))))
                    / real (length (items (deque_append (volBreathsQ s) (sum_list (items (curVol s)))))),
                  volFlag := False\<rparr>)"
proof -
  let ?v = "sum_list (items (curVol s))"
  let ?Q = "deque_append (volBreathsQ s) ?v"
  have ne: "items ?Q \<noteq> []"
    using assms(3) by (simp add: deque_append_def)
  have lst: "items ?Q ! (length (items ?Q) - 1) = ?v"
    using assms(3) by (simp add: deque_append_def nth_append)
  have idx: "deque_index_neg ?Q (Suc 0) = Inr ?v"
    using ne lst by (simp add: deque_index_neg_def Suc_le_eq)
  have dv: "truediv (sum_list (items ?Q)) (real (length (items ?Q))) =
              Inr (sum_list (items ?Q) / real (length (items ?Q)))"
    using ne by (simp add: truediv_def)
  show ?thesis
    using assms(1,2) by (simp add: volBreath_def Let_def idx dv)
qed

lemma deque_append_eq: "deque_append d x = d\<lparr>items := lastn (maxlen d) (items d @ [x])\<rparr>"
  by (simp add: deque_append_def lastn_def)

lemma dataUpdate_flow: "dataUpdate now 0 n s = volBreath now n s"
  by (simp add: dataUpdate_def)

lemma run_flow_above:
  assumes "ns \<noteq> []" and "\<forall>x\<in>set ns. floTrig s \<le> snd x"
  shows "run_flow ns s =
           Inr (s\<lparr>curVol := (curVol s)\<lparr>items :=
                    lastn (maxlen (curVol s))
                      (items (curVol s)
                       @ (if volFlag s then [] else [snd (hd ns) * (5 / 6000)])
                       @ map (\<lambda>x. snd x * (5 / 6000)) ns)\<rparr>,
                  volFlag := True\<rparr>)"
  using assms
proof (induction ns rule: rev_nonempty_induct)
  case (single x)
  then show ?case
    by (simp add: dataUpdate_flow volBreath_above deque_append_eq lastn_lastn_append)
next
  case (snoc x xs)
  then show ?case
    by (simp add: run_append dataUpdate_flow volBreath_above deque_append_eq lastn_lastn_append)
qed


lemma dataUpdate_co: "dataUpdate now 1 n s = veVco2 now n s"
  by (simp add: dataUpdate_def co2Max_def split: sum.splits)

lemma ratio_zero: "integratedCo s = 0 \<Longrightarrow> ratio s = Inl ZeroDivisionError"
  by (simp add: ratio_def truediv_def)

lemma ratio_nonzero:
  "integratedCo s \<noteq> 0 \<Longrightarrow> integratedCoPts s \<noteq> 0 \<Longrightarrow>
   ratio s = Inr (1 / (integratedCo s / (real_of_int (integratedCoPts s) * 0.05)))"
  by (simp add: ratio_def truediv_def)

lemma veVco2_above:
  assumes "coTrig s < n" and "items (integratedCoTime s) \<noteq> []"
    and "2 \<le> maxlen (integratedCoTime s)"
    and "dt = now - last (items (integratedCoTime s))"
    and "s3 = s\<lparr>integratedCoTime := deque_append (integratedCoTime s) now,
                  integratedCo := integratedCo s
                     + (n / 1000000) * (if dt < 0.04 \<or> 0.06 < dt then 0.05 else dt),
                  integratedCoPts := integratedCoPts s + 1\<rparr>"
  shows "veVco2 now n s =
           (case ratio s3 of
              Inl e \<Rightarrow> Inl (e, s3)
            | Inr r \<Rightarrow> Inr (s3\<lparr>veVco2Val := deque_append (veVco2Val s) r,
                               tabAvg_label_veVc := r\<rparr>))"
  using assms(1,4,5)
  by (auto simp: veVco2_def Let_def elapsed_append [OF assms(2,3)] split: sum.splits)

lemma last_deque_append: "0 < maxlen d \<Longrightarrow> last (items (deque_append d x)) = x"
  by (simp add: deque_append_def)

lemma items_deque_append_ne: "0 < maxlen d \<Longrightarrow> items (deque_append d x) \<noteq> []"
  by (simp add: deque_append_def)

lemma closed_form:
  assumes "V \<noteq> 0" and "K \<noteq> 0"
  shows "1 / ((V / 1000000) * 0.05 * K / (K * 0.05)) = 1000000 / (V::real)"
  using assms by (simp add: field_simps)

lemma veVco2_step:
  assumes "coTrig s < n" and "items (integratedCoTime s) \<noteq> []"
    and "2 \<le> maxlen (integratedCoTime s)"
    and "dt = now - last (items (integratedCoTime s))"
    and "I = integratedCo s + (n / 1000000) * (if dt < 0.04 \<or> 0.06 < dt then 0.05 else dt)"
    and "I \<noteq> 0" and "integratedCoPts s + 1 \<noteq> 0"
    and "r = 1 / (I / (real_of_int (integratedCoPts s + 1) * 0.05))"
  shows "\<exists>s'. veVco2 now n s = Inr s'
           \<and> coTrig s' = coTrig s
           \<and> integratedCo s' = I
           \<and> integratedCoPts s' = integratedCoPts s + 1
           \<and> items (integratedCoTime s') \<noteq> []
           \<and> last (items (integratedCoTime s')) = now
           \<and> maxlen (integratedCoTime s') = maxlen (integratedCoTime s)
           \<and> maxlen (veVco2Val s') = maxlen (veVco2Val s)
           \<and> tabAvg_label_veVc s' = r
           \<and> (0 < maxlen (veVco2Val s) \<longrightarrow> last (items (veVco2Val s')) = r)"
proof -
  define s3 where "s3 = s\<lparr>integratedCoTime := deque_append (integratedCoTime s) now,
                  integratedCo := integratedCo s
                     + (n / 1000000) * (if dt < 0.04 \<or> 0.06 < dt then 0.05 else dt),
                  integratedCoPts := integratedCoPts s + 1\<rparr>"
  have i: "integratedCo s3 = I" by (simp add: s3_def assms(5))
  have p: "integratedCoPts s3 = integratedCoPts s + 1" by (simp add: s3_def)
  have r: "ratio s3 = Inr r"
    using assms(6,7) by (simp add: ratio_nonzero i p assms(8))
  have v: "veVco2 now n s = Inr (s3\<lparr>veVco2Val := deque_append (veVco2Val s) r,
                                     tabAvg_label_veVc := r\<rparr>)"
    by (simp add: veVco2_above [OF assms(1,2,3,4) s3_def] r)
  have pos: "0 < maxlen (integratedCoTime s)" using assms(3) by simp
  have f: "coTrig s3 = coTrig s" "integratedCoTime s3 = deque_append (integratedCoTime s) now"
    by (simp_all add: s3_def)
  show ?thesis
    unfolding v using i p pos f
    by (simp add: last_deque_append items_deque_append_ne maxlen_deque_append)
qed

lemma run_co_constant:
  assumes "coTrig s < V" and "V \<noteq> 0"
    and "integratedCo s = 0" and "integratedCoPts s = 0"
    and "items (integratedCoTime s) \<noteq> []" and "2 \<le> maxlen (integratedCoTime s)"
    and "t1 - last (items (integratedCoTime s)) = 0.05
         \<or> t1 - last (items (integratedCoTime s)) < 0.04
         \<or> 0.06 < t1 - last (items (integratedCoTime s))"
  shows "\<exists>s'. run_co (map (\<lambda>k. (t1 + 0.05 * real k, V)) [0..<Suc N]) s = Inr s'
           \<and> coTrig s' = coTrig s
           \<and> integratedCo s' = (V / 1000000) * 0.05 * real (Suc N)
           \<and> integratedCoPts s' = int (Suc N)
           \<and> items (integratedCoTime s') \<noteq> []
           \<and> last (items (integratedCoTime s')) = t1 + 0.05 * real N
           \<and> maxlen (integratedCoTime s') = maxlen (integratedCoTime s)
           \<and> maxlen (veVco2Val s') = maxlen (veVco2Val s)
           \<and> tabAvg_label_veVc s' = 1000000 / V
           \<and> (0 < maxlen (veVco2Val s) \<longrightarrow> last (items (veVco2Val s')) = 1000000 / V)"
proof (induction N)
  case 0
  define dt where "dt = t1 - last (items (integratedCoTime s))"
  define I where "I = integratedCo s
                     + (V / 1000000) * (if dt < 0.04 \<or> 0.06 < dt then 0.05 else dt)"
  define r where "r = 1 / (I / (real_of_int (integratedCoPts s + 1) * 0.05))"
  have i: "I = (V / 1000000) * 0.05"
    using assms(3,7) by (auto simp: I_def dt_def)
  have nz: "I \<noteq> 0" using assms(2) by (simp add: i)
  have p: "integratedCoPts s + 1 \<noteq> 0" using assms(4) by simp
  have r: "r = 1000000 / V" using assms(2,4) by (simp add: r_def i)
  from veVco2_step [OF assms(1,5,6) dt_def I_def nz p r_def]
  show ?case
    using assms(4) by (auto simp: dataUpdate_co i r)
next
  case (Suc N)
  then obtain s1 where run1: "run_co (map (\<lambda>k. (t1 + 0.05 * real k, V)) [0..<Suc N]) s = Inr s1"
    and c: "coTrig s1 = coTrig s"
    and i: "integratedCo s1 = (V / 1000000) * 0.05 * real (Suc N)"
    and p: "integratedCoPts s1 = int (Suc N)"
    and ne: "items (integratedCoTime s1) \<noteq> []"
    and l: "last (items (integratedCoTime s1)) = t1 + 0.05 * real N"
    and m: "maxlen (integratedCoTime s1) = maxlen (integratedCoTime s)"
    and mv: "maxlen (veVco2Val s1) = maxlen (veVco2Val s)"
    by blast
  define now where "now = t1 + 0.05 * real (Suc N)"
  define dt where "dt = now - last (items (integratedCoTime s1))"
  define I where "I = integratedCo s1
                     + (V / 1000000) * (if dt < 0.04 \<or> 0.06 < dt then 0.05 else dt)"
  define r where "r = 1 / (I / (real_of_int (integratedCoPts s1 + 1) * 0.05))"
  have dt: "dt = 0.05" by (simp add: dt_def now_def l algebra_simps)
  have i3: "I = (V / 1000000) * 0.05 * real (Suc (Suc N))"
    by (simp add: I_def dt i algebra_simps)
  have nz: "I \<noteq> 0" using assms(2) by (simp add: i3)
  have p3: "integratedCoPts s1 + 1 \<noteq> 0" by (simp add: p)
  have k: "real_of_int (integratedCoPts s1 + 1) = real (Suc (Suc N))"
    by (simp add: p)
  have k0: "real (Suc (Suc N)) \<noteq> 0" by simp
  have r: "r = 1000000 / V"
    unfolding r_def i3 k by (rule closed_form [OF assms(2) k0])
  have above: "coTrig s1 < V" using c assms(1) by simp
  have m2: "2 \<le> maxlen (integratedCoTime s1)" using m assms(6) by simp
  have split: "map (\<lambda>k. (t1 + 0.05 * real k, V)) [0..<Suc (Suc N)]
                 = map (\<lambda>k. (t1 + 0.05 * real k, V)) [0..<Suc N] @ [(now, V)]"
    by (simp add: now_def)
  have step: "run_co (map (\<lambda>k. (t1 + 0.05 * real k, V)) [0..<Suc (Suc N)]) s
                = veVco2 now V s1"
    unfolding split run_append run1
    by (simp add: dataUpdate_co split: sum.splits)
  from veVco2_step [OF above ne m2 dt_def I_def nz p3 r_def]
  show ?case
    unfolding step using c m mv p
    by (auto simp: i3 r now_def)
qed

subsection \<open>The CO2 integration\<close>

text \<open>
  Claim C3. A CO2 reading at or below the trigger returns \<open>0\<close> (the value appended to
  the history of ratios) and changes nothing else: the integral, the number of
  integrated points and the timestamps stay as they were, so a drop below the
  trigger never resets the integral.
\<close>

theorem veVco2_below_trigger:
  assumes "n \<le> coTrig s"
  shows "veVco2 now n s = Inr (s\<lparr>veVco2Val := deque_append (veVco2Val s) 0\<rparr>)"
  using assms by (simp add: veVco2_def)

theorem veVco2_below_trigger_witness:
  "(15000::real) \<le> coTrig (MainUI_init 0) \<and>
   veVco2 7 15000 (MainUI_init 0) =
     Inr ((MainUI_init 0)\<lparr>veVco2Val := \<lparr>items = [0, 0], maxlen = 500\<rparr>\<rparr>)"
  using veVco2_below_trigger [of 15000 "MainUI_init 0" 7]
  by (simp add: MainUI_init_def deque_append_def deque_new_def)

text \<open>
  Claim C4. For an integrated reading, the integral grows by \<open>n / 10^6\<close> times the
  nominal \<open>0.05\<close> s when the time since the previous timestamp of
  \<open>integratedCoTime\<close> is outside \<open>[0.04, 0.06]\<close>, and by \<open>n / 10^6\<close> times the
  measured time otherwise.
\<close>

theorem veVco2_effective_interval:
  assumes "coTrig s < n" and "items (integratedCoTime s) \<noteq> []"
    and "2 \<le> maxlen (integratedCoTime s)"
  shows "integratedCo (state_of (veVco2 now n s)) =
           integratedCo s + (n / 1000000) *
             (let dt = now - last (items (integratedCoTime s))
              in if dt < 0.04 \<or> 0.06 < dt then 0.05 else dt)"
  using assms
  by (auto simp: veVco2_def Let_def elapsed_append state_of_def split: sum.splits)

theorem veVco2_effective_interval_witness:
  "coTrig (MainUI_init 0) < 50000 \<and> items (integratedCoTime (MainUI_init 0)) \<noteq> []
   \<and> 2 \<le> maxlen (integratedCoTime (MainUI_init 0))
   \<and> integratedCo (state_of (veVco2 0.10 50000 (MainUI_init 0))) = 50000 / 1000000 * 0.05"
  using veVco2_effective_interval [of "MainUI_init 0" 50000 "0.10"]
  by (simp add: MainUI_init_def deque_new_def)

text \<open>
  Claim C5. When the integral is zero at the moment the ratio is computed, \<open>veVco2\<close>
  raises \<open>ZeroDivisionError\<close>; it does not return, so no zero is recorded as a ratio.
\<close>

theorem veVco2_zero_integral_raises:
  assumes "coTrig s < n" and "items (integratedCoTime s) \<noteq> []"
    and "2 \<le> maxlen (integratedCoTime s)"
    and "integratedCo s + (n / 1000000) *
           (let dt = now - last (items (integratedCoTime s))
            in if dt < 0.04 \<or> 0.06 < dt then 0.05 else dt) = 0"
  shows "\<exists>s'. veVco2 now n s = Inl (ZeroDivisionError, s') \<and> integratedCo s' = 0"
proof -
  define dt where "dt = now - last (items (integratedCoTime s))"
  define s3 where "s3 = s\<lparr>integratedCoTime := deque_append (integratedCoTime s) now,
                  integratedCo := integratedCo s
                     + (n / 1000000) * (if dt < 0.04 \<or> 0.06 < dt then 0.05 else dt),
                  integratedCoPts := integratedCoPts s + 1\<rparr>"
  have "integratedCo s3 = integratedCo s + (n / 1000000) *
           (let dt = now - last (items (integratedCoTime s))
            in if dt < 0.04 \<or> 0.06 < dt then 0.05 else dt)"
    unfolding s3_def dt_def Let_def by simp
  then have z: "integratedCo s3 = 0"
    using assms(4) by simp
  show ?thesis
    using z by (simp add: veVco2_above [OF assms(1,2,3) dt_def s3_def] ratio_zero)
qed

theorem veVco2_zero_integral_raises_witness:
  "coTrig ((MainUI_init 0)\<lparr>coTrig := -1\<rparr>) < 0
   \<and> (\<exists>s'. veVco2 1 0 ((MainUI_init 0)\<lparr>coTrig := -1\<rparr>) = Inl (ZeroDivisionError, s')
          \<and> integratedCo s' = 0)"
  using veVco2_zero_integral_raises [of "(MainUI_init 0)\<lparr>coTrig := -1\<rparr>" 0 1]
  by (simp add: MainUI_init_def deque_new_def)

text \<open>
  Claim C9, as the code has it. The test is \<open>n > self.coTrig\<close>: a reading equal to
  the trigger is not integrated. The number of integrated points grows exactly
  when the reading is strictly above the trigger, and at the trigger the integral,
  the points and the timestamps are unchanged.
\<close>

theorem veVco2_at_trigger_not_integrated:
  assumes "items (integratedCoTime s) \<noteq> []" and "2 \<le> maxlen (integratedCoTime s)"
  shows "(integratedCoPts (state_of (veVco2 now n s)) = integratedCoPts s + 1) = (coTrig s < n)
         \<and> (n = coTrig s \<longrightarrow>
              integratedCo (state_of (veVco2 now n s)) = integratedCo s
              \<and> integratedCoPts (state_of (veVco2 now n s)) = integratedCoPts s
              \<and> integratedCoTime (state_of (veVco2 now n s)) = integratedCoTime s)"
  using assms
  by (auto simp: veVco2_def Let_def elapsed_append state_of_def split: sum.splits)

theorem veVco2_at_trigger_not_integrated_witness:
  "items (integratedCoTime (MainUI_init 0)) \<noteq> [] \<and> 2 \<le> maxlen (integratedCoTime (MainUI_init 0))
   \<and> (20000::real) = coTrig (MainUI_init 0)
   \<and> integratedCo (state_of (veVco2 1 20000 (MainUI_init 0))) = 0
   \<and> integratedCoPts (state_of (veVco2 1 20000 (MainUI_init 0))) = 0"
  using veVco2_at_trigger_not_integrated [of "MainUI_init 0" 1 20000]
  by (simp add: MainUI_init_def deque_new_def)

text \<open>
  Claim C9 as stated fails on a new \<open>MainUI\<close>: a reading of \<open>20000\<close>, the
  trigger, adds nothing to the integral and does not count as a point.
\<close>

theorem veVco2_at_trigger_counterexample:
  "(20000::real) = coTrig (MainUI_init 0)
   \<and> integratedCo (state_of (veVco2 1 20000 (MainUI_init 0))) = integratedCo (MainUI_init 0)
   \<and> integratedCoPts (state_of (veVco2 1 20000 (MainUI_init 0)))
       \<noteq> integratedCoPts (MainUI_init 0) + 1"
  by (simp add: veVco2_def state_of_def MainUI_init_def)

text \<open>
  Claim C2, as the code has it. From a fresh integration state (integral and point
  count at zero, as after construction or \<open>resetAvg\<close>), \<open>N \<ge> 1\<close> readings of the
  same value \<open>V\<close>
  above the trigger, \<open>0.05\<close> s apart, leave the ratio \<open>10^6 / V\<close> in the label and at
  the end of the history of ratios. The first reading comes \<open>0.05\<close> s after the last
  timestamp the state holds (the time of construction, on a new object) or outside
  the tolerance band around it (as when the sensor is connected later), so that
  every reading is integrated over \<open>0.05\<close> s. For \<open>V = 0\<close>, which only a negative
  trigger admits, the closed form is undefined and the first reading raises
  \<open>ZeroDivisionError\<close>.
\<close>

theorem veVco2_constant_ratio:
  assumes "coTrig s < V" and "integratedCo s = 0" and "integratedCoPts s = 0"
    and "items (integratedCoTime s) \<noteq> []" and "2 \<le> maxlen (integratedCoTime s)"
    and "t0 = last (items (integratedCoTime s))"
    and "t1 - t0 = 0.05 \<or> t1 - t0 < 0.04 \<or> 0.06 < t1 - t0"
    and "1 \<le> N"
  shows "if V = 0
         then \<exists>s'. run_co (map (\<lambda>k. (t1 + 0.05 * real k, V)) [0..<N]) s
                      = Inl (ZeroDivisionError, s')
         else \<exists>s'. run_co (map (\<lambda>k. (t1 + 0.05 * real k, V)) [0..<N]) s = Inr s'
                \<and> tabAvg_label_veVc s' = 1000000 / V
                \<and> (0 < maxlen (veVco2Val s) \<longrightarrow> last (items (veVco2Val s')) = 1000000 / V)"
proof -
  obtain M where N: "N = Suc M" using assms(8) by (cases N) auto
  show ?thesis
  proof (cases "V = 0")
    case True
    define dt where "dt = t1 - last (items (integratedCoTime s))"
    define s3 where "s3 = s\<lparr>integratedCoTime := deque_append (integratedCoTime s) t1,
                  integratedCo := integratedCo s
                     + (V / 1000000) * (if dt < 0.04 \<or> 0.06 < dt then 0.05 else dt),
                  integratedCoPts := integratedCoPts s + 1\<rparr>"
    have z: "integratedCo s3 = 0"
      using True assms(2) by (simp add: s3_def)
    have first: "veVco2 t1 V s = Inl (ZeroDivisionError, s3)"
      by (simp add: veVco2_above [OF assms(1,4,5) dt_def s3_def] ratio_zero z)
    have "[0..<N] = 0 # [1..<N]"
      using assms(8) by (simp add: upt_conv_Cons)
    then have "run_co (map (\<lambda>k. (t1 + 0.05 * real k, V)) [0..<N]) s
                 = Inl (ZeroDivisionError, s3)"
      using first by (simp add: dataUpdate_co)
    with True show ?thesis by simp
  next
    case False
    have d: "t1 - last (items (integratedCoTime s)) = 0.05
             \<or> t1 - last (items (integratedCoTime s)) < 0.04
             \<or> 0.06 < t1 - last (items (integratedCoTime s))"
      using assms(7) by (simp add: assms(6))
    from run_co_constant [OF assms(1) False assms(2,3,4,5) d, of M]
    show ?thesis using False N by auto
  qed
qed

theorem veVco2_constant_ratio_witness:
  "coTrig (MainUI_init 0) < 50000
   \<and> integratedCo (MainUI_init 0) = 0 \<and> integratedCoPts (MainUI_init 0) = 0
   \<and> last (items (integratedCoTime (MainUI_init 0))) = 0 \<and> (1::nat) \<le> 10
   \<and> (\<exists>s'. run_co (map (\<lambda>k. (0.05 + 0.05 * real k, 50000)) [0..<10]) (MainUI_init 0) = Inr s'
          \<and> tabAvg_label_veVc s' = 20 \<and> last (items (veVco2Val s')) = 20)"
  using veVco2_constant_ratio [of "MainUI_init 0" 50000 0 "0.05" 10]
  by (simp add: MainUI_init_def deque_new_def)

text \<open>
  Claim C2 as stated fails when the first reading falls inside the tolerance band
  but not \<open>0.05\<close> s after the stored timestamp. On a new \<open>MainUI\<close> built at time
  \<open>0\<close>, two readings of \<open>50000\<close> at \<open>0.045\<close> s and \<open>0.095\<close> s (\<open>0.05\<close> s apart)
  are integrated over \<open>0.045\<close> s and \<open>0.05\<close> s: the ratio is \<open>400/19\<close>, not
  \<open>10^6 / 50000 = 20\<close>.
\<close>

theorem veVco2_constant_ratio_counterexample:
  "coTrig (MainUI_init 0) < 50000
   \<and> tabAvg_label_veVc (state_of (run_co [(0.045, 50000), (0.095, 50000)] (MainUI_init 0)))
       = 400 / 19
   \<and> last (items (veVco2Val (state_of
         (run_co [(0.045, 50000), (0.095, 50000)] (MainUI_init 0))))) = 400 / 19
   \<and> (400 / 19 :: real) \<noteq> 1000000 / 50000"
  by (simp add: dataUpdate_def veVco2_def co2Max_def Let_def elapsed_def
      deque_index_neg_def deque_append_def deque_new_def ratio_def truediv_def
      state_of_def MainUI_init_def)

subsection \<open>The peak of CO2\<close>

lemma dataUpdate_co_maxCo2Val:
  "maxCo2Val (state_of (dataUpdate now 1 n s)) = maxCo2Val s"
  by (auto simp: dataUpdate_co veVco2_def Let_def state_of_def
      split: sum.splits)

text \<open>
  Claim C6, on a concrete run. On a new \<open>MainUI\<close> a CO2 reading of \<open>50000\<close> ppm is
  processed without error and \<open>maxCo2Val\<close> is still \<open>0\<close>: \<open>co2Max\<close> does nothing.
\<close>

theorem co2Max_peak_never_updated:
  "(\<exists>s'. run_co [(1, 50000)] (MainUI_init 0) = Inr s' \<and> maxCo2Val s' = 0)
   \<and> co2Max 50000 (MainUI_init 0) = MainUI_init 0"
  by (simp add: dataUpdate_def veVco2_def co2Max_def Let_def elapsed_def
      deque_index_neg_def deque_append_def deque_new_def ratio_def truediv_def
      MainUI_init_def)

subsection \<open>The breath segmentation\<close>

text \<open>
  One breath that starts with the flag down and fits the buffer: the readings \<open>ns\<close>
  at or above the trigger, then a reading below it. One row is written, and its
  volume holds what the buffer held before, the contribution of the first reading
  a second time, and the contribution of every reading.
\<close>

lemma run_flow_one_breath:
  assumes "maxlen (curVol s) = 500" and "maxlen (volBreathsQ s) = 100"
    and "\<not> volFlag s" and "ns \<noteq> []" and "\<forall>x\<in>set ns. floTrig s \<le> snd x"
    and "length (items (curVol s)) + length ns < 500"
    and "n < floTrig s"
  shows "\<exists>s'. run_flow (ns @ [(t, n)]) s = Inr s' \<and>
           breaths_since s s' =
             [(t, sum_list (items (curVol s)) + snd (hd ns) * (5 / 6000)
                  + sum_list (map (\<lambda>x. snd x * (5 / 6000)) ns))]"
  using assms(1,2,3,6,7)
  by (simp add: run_append run_flow_above [OF assms(4,5)] dataUpdate_flow
      volBreath_below_open breaths_since_def lastn_def)

text \<open>
  Claim C1, on a concrete run. On a new \<open>MainUI\<close> (trigger \<open>10\<close>) the readings
  \<open>12\<close> and \<open>5\<close> cross the trigger once upward and once downward. One row is
  written, with volume \<open>1/50\<close>: the reading \<open>12\<close> is counted twice, where the
  sum over the readings at or above the trigger is \<open>12 * 5/6000 = 1/100\<close>.
\<close>

theorem volBreath_first_sample_counted_twice:
  "(\<exists>s'. run_flow [(1, 12), (2, 5)] (MainUI_init 0) = Inr s'
         \<and> breaths_since (MainUI_init 0) s' = [(2, 1 / 50)])
   \<and> sum_list (map (\<lambda>x. snd x * (5 / 6000)) [(1, 12::real)]) = (1 / 100 :: real)"
  by (simp add: dataUpdate_def volBreath_def Let_def deque_index_neg_def
      deque_append_def deque_new_def truediv_def breaths_since_def MainUI_init_def)

text \<open>
  Claim C10. The buffer \<open>curVol\<close> holds 500 contributions. When more than 500
  readings at or above the trigger are followed by a reading below it, the volume
  written is the sum of the contributions of the last 500 readings only.
\<close>

theorem volBreath_long_breath:
  assumes "maxlen (curVol s) = 500" and "maxlen (volBreathsQ s) = 100"
    and "\<forall>x\<in>set ns. floTrig s \<le> snd x" and "500 < length ns"
    and "n < floTrig s"
  shows "\<exists>s'. run_flow (ns @ [(t, n)]) s = Inr s' \<and>
           breaths_since s s' =
             [(t, sum_list (map (\<lambda>x. snd x * (5 / 6000)) (lastn 500 ns)))]"
proof -
  let ?c = "\<lambda>x::real \<times> real. snd x * (5 / 6000)"
  have ne: "ns \<noteq> []" using assms(4) by auto
  let ?pre = "items (curVol s) @ (if volFlag s then [] else [snd (hd ns) * (5 / 6000)])"
  have "lastn 500 (?pre @ map ?c ns) = lastn 500 (map ?c ns)"
    using assms(4) by (intro lastn_append_long) simp
  also have "\<dots> = map ?c (lastn 500 ns)"
    by (simp add: lastn_def drop_map)
  finally have kept: "lastn 500 (?pre @ map ?c ns) = map ?c (lastn 500 ns)" .
  show ?thesis
    using assms(1,2,5) kept
    by (simp add: run_append run_flow_above [OF ne assms(3)] dataUpdate_flow
        volBreath_below_open breaths_since_def)
qed

theorem volBreath_long_breath_witness:
  "maxlen (curVol (MainUI_init 0)) = 500 \<and> maxlen (volBreathsQ (MainUI_init 0)) = 100
   \<and> floTrig (MainUI_init 0) \<le> 12
   \<and> 500 < length (replicate 501 (1::real, 12::real))
   \<and> 5 < floTrig (MainUI_init 0)
   \<and> (\<exists>s'. run_flow (replicate 501 (1, 12) @ [(2, 5)]) (MainUI_init 0) = Inr s'
          \<and> breaths_since (MainUI_init 0) s' = [(2, 5)])"
  using volBreath_long_breath [of "MainUI_init 0" "replicate 501 (1, 12)" 5 2]
  by (simp add: MainUI_init_def deque_new_def lastn_def sum_list_replicate)

subsection \<open>The session average\<close>



subsection \<open>The reset\<close>

text \<open>
  Claim C7, on a concrete run. \<open>resetAvg\<close> lowers \<open>volFlag\<close> and leaves \<open>curVol\<close>
  as it is. After the reading \<open>12\<close> has opened a breath and \<open>resetAvg\<close> has run,
  the readings \<open>12\<close> and \<open>5\<close> write a breath of volume \<open>1/25\<close>; on a new \<open>MainUI\<close>
  the same two readings write a breath of volume \<open>1/50\<close>.
\<close>

theorem resetAvg_keeps_curVol:
  "(\<exists>s1 s'. run_flow [(1, 12)] (MainUI_init 0) = Inr s1
        \<and> curVol (resetAvg s1) = curVol s1 \<and> items (curVol s1) = [0, 1 / 100, 1 / 100]
        \<and> run_flow [(2, 12), (3, 5)] (resetAvg s1) = Inr s'
        \<and> map snd (breaths_since (resetAvg s1) s') = [1 / 25])
   \<and> (\<exists>s'. run_flow [(2, 12), (3, 5)] (MainUI_init 0) = Inr s'
        \<and> map snd (breaths_since (MainUI_init 0) s') = [1 / 50])"
  by (simp add: dataUpdate_def volBreath_def Let_def deque_index_neg_def
      deque_append_def deque_new_def truediv_def breaths_since_def
      resetAvg_def MainUI_init_def)

end
